theory Spec2Isabelle
  imports Complex_Main
begin

section \<open>Python values\<close>

text \<open>
  Python's unbounded \<^verbatim>\<open>int\<close> is \<^typ>\<open>int\<close>. A Python \<^verbatim>\<open>float\<close> is modelled by an exact
  real number: products, sums and quotients are the exact ones, so rounding to 53 bits,
  infinities and NaN are outside this model. \<^verbatim>\<open>int(x)\<close> on a float truncates toward zero.
\<close>

type_synonym pyfloat = real

definition py_int :: "pyfloat \<Rightarrow> int" where
  "py_int x = (if x < 0 then \<lceil>x\<rceil> else \<lfloor>x\<rfloor>)"

datatype pyerr = ValueError | IndexError | KeyError

section \<open>stats.py\<close>

subsection \<open>class Stats\<close>

record Stats =
  hp :: int
  max_hp :: int
  attack :: int
  defense :: int
  speed :: int
  special_attack :: int
  special_defense :: int

text \<open>
  The dataclass constructor followed by \<^verbatim>\<open>__post_init__\<close>: the seven fields are stored and
  \<^verbatim>\<open>hp\<close> is lowered to \<^verbatim>\<open>max_hp\<close> when it exceeds it.
\<close>

definition Stats_init :: "int \<Rightarrow> int \<Rightarrow> int \<Rightarrow> int \<Rightarrow> int \<Rightarrow> int \<Rightarrow> int \<Rightarrow> Stats" where
  "Stats_init h mh a d s sa sd =
     \<lparr>hp = (if h > mh then mh else h), max_hp = mh, attack = a, defense = d, speed = s,
      special_attack = sa, special_defense = sd\<rparr>"


text \<open>
  \<^verbatim>\<open>heal\<close> and \<^verbatim>\<open>take_damage\<close> assign to \<^verbatim>\<open>self.hp\<close>: the model returns the updated object
  together with the returned number.
\<close>

definition heal :: "Stats \<Rightarrow> int \<Rightarrow> Stats \<times> int" where
  "heal s amount =
     (let old_hp = hp s;
          s' = s\<lparr>hp := min (hp s + amount) (max_hp s)\<rparr>
      in (s', hp s' - old_hp))"

definition take_damage :: "Stats \<Rightarrow> int \<Rightarrow> Stats \<times> int" where
  "take_damage s amount =
     (let old_hp = hp s;
          s' = s\<lparr>hp := max 0 (hp s - amount)\<rparr>
      in (s', old_hp - hp s'))"

definition is_alive :: "Stats \<Rightarrow> bool" where
  "is_alive s = (hp s > 0)"

subsection \<open>class StatModifier\<close>

record StatModifier =
  modifier_name :: string
  duration :: int
  attack_multiplier :: pyfloat
  attack_bonus :: int
  defense_multiplier :: pyfloat
  defense_bonus :: int
  speed_multiplier :: pyfloat
  speed_bonus :: int
  special_attack_multiplier :: pyfloat
  special_attack_bonus :: int
  special_defense_multiplier :: pyfloat
  special_defense_bonus :: int
  max_hp_multiplier :: pyfloat
  max_hp_bonus :: int

definition is_expired :: "StatModifier \<Rightarrow> bool" where
  "is_expired m = (duration m = 0)"

definition tick :: "StatModifier \<Rightarrow> StatModifier" where
  "tick m = (if duration m > 0 then m\<lparr>duration := duration m - 1\<rparr> else m)"

subsection \<open>Stats.apply_modifier\<close>




subsection \<open>class StatGrowth\<close>

record StatGrowth =
  hp_growth :: pyfloat
  attack_growth :: pyfloat
  defense_growth :: pyfloat
  speed_growth :: pyfloat
  special_attack_growth :: pyfloat
  special_defense_growth :: pyfloat
  growth_curve :: string

definition curves :: "(string \<times> pyfloat) list" where
  "curves = [(''slow'', 8 / 10), (''medium_slow'', 9 / 10), (''medium_fast'', 1), (''fast'', 12 / 10)]"

definition get_growth_multiplier :: "StatGrowth \<Rightarrow> int \<Rightarrow> pyfloat" where
  "get_growth_multiplier g level =
     (case map_of curves (growth_curve g) of Some m \<Rightarrow> m | None \<Rightarrow> 1)"

definition calculate_stats_at_level :: "StatGrowth \<Rightarrow> Stats \<Rightarrow> int \<Rightarrow> Stats" where
  "calculate_stats_at_level g base_stats level =
     (let growth_multiplier = get_growth_multiplier g level;
          new_max_hp = py_int (of_int (max_hp base_stats)
                         + hp_growth g * of_int (level - 1) * growth_multiplier);
          new_hp = py_int (of_int (max_hp base_stats)
                         + hp_growth g * of_int (level - 1) * growth_multiplier);
          new_attack = py_int (of_int (attack base_stats)
                         + attack_growth g * of_int (level - 1) * growth_multiplier);
          new_defense = py_int (of_int (defense base_stats)
                         + defense_growth g * of_int (level - 1) * growth_multiplier);
          new_speed = py_int (of_int (speed base_stats)
                         + speed_growth g * of_int (level - 1) * growth_multiplier);
          new_special_attack = py_int (of_int (special_attack base_stats)
                         + special_attack_growth g * of_int (level - 1) * growth_multiplier);
          new_special_defense = py_int (of_int (special_defense base_stats)
                         + special_defense_growth g * of_int (level - 1) * growth_multiplier)
      in Stats_init new_hp new_max_hp new_attack new_defense new_speed
                    new_special_attack new_special_defense)"

section \<open>The random module\<close>

text \<open>
  The generator is the list of the raw numbers it is still to produce (it produces 0 once
  the list is used up); every call takes the first one and returns the rest as the new
  generator state. The only contracts used are those of the library:
  \<^verbatim>\<open>random()\<close> is \<open>k / 2^53\<close> for some \<open>0 \<le> k < 2^53\<close>; \<^verbatim>\<open>randint(a, b)\<close> is some \<open>n\<close> with
  \<open>a \<le> n \<le> b\<close> and raises \<^verbatim>\<open>ValueError\<close> when \<open>a > b\<close>; \<^verbatim>\<open>uniform(a, b)\<close> is
  \<^verbatim>\<open>a + (b - a) * random()\<close>; \<^verbatim>\<open>choice(seq)\<close> is an element of \<^verbatim>\<open>seq\<close>.
\<close>

type_synonym rng = "nat list"

definition next_raw :: "rng \<Rightarrow> nat \<times> rng" where
  "next_raw g = (case g of [] \<Rightarrow> (0, []) | r # g' \<Rightarrow> (r, g'))"

definition random_random :: "rng \<Rightarrow> pyfloat \<times> rng" where
  "random_random g =
     (case next_raw g of (r, g') \<Rightarrow> (of_nat (r mod 9007199254740992) / 9007199254740992, g'))"

definition random_randint :: "int \<Rightarrow> int \<Rightarrow> rng \<Rightarrow> pyerr + (int \<times> rng)" where
  "random_randint a b g =
     (if a > b then Inl ValueError
      else case next_raw g of (r, g') \<Rightarrow> Inr (a + int (r mod nat (b - a + 1)), g'))"

definition random_uniform :: "pyfloat \<Rightarrow> pyfloat \<Rightarrow> rng \<Rightarrow> pyfloat \<times> rng" where
  "random_uniform a b g = (case random_random g of (u, g') \<Rightarrow> (a + (b - a) * u, g'))"

definition random_choice :: "'a list \<Rightarrow> rng \<Rightarrow> pyerr + ('a \<times> rng)" where
  "random_choice seq g =
     (if seq = [] then Inl IndexError
      else case next_raw g of (r, g') \<Rightarrow> Inr (seq ! (r mod length seq), g'))"

text \<open>Sequencing of calls that may raise and that advance the generator.\<close>

definition bind_rng :: "pyerr + ('a \<times> rng) \<Rightarrow> ('a \<Rightarrow> rng \<Rightarrow> pyerr + ('b \<times> rng)) \<Rightarrow> pyerr + ('b \<times> rng)" where
  "bind_rng m f = (case m of Inl e \<Rightarrow> Inl e | Inr (x, g) \<Rightarrow> f x g)"

section \<open>The classes evolution.py imports\<close>

text \<open>
  \<^verbatim>\<open>Trait\<close>, \<^verbatim>\<open>CreatureType\<close> and \<^verbatim>\<open>Creature\<close> are declared in modules that are not among the
  sources; the records below hold the fields that evolution.py reads, writes or passes to
  their constructors.
\<close>

record Trait =
  trait_name :: string
  trait_description :: string
  trait_type :: string
  strength_modifier :: pyfloat
  speed_modifier :: pyfloat
  defense_modifier :: pyfloat
  rarity :: string

record CreatureType =
  type_name :: string
  type_description :: string
  type_base_stats :: Stats
  stat_growth :: StatGrowth
  type_tags :: "string list"
  evolution_stage :: int

record Creature =
  creature_name :: string
  creature_type :: CreatureType
  level :: int
  base_stats :: Stats
  stats :: Stats
  traits :: "Trait list"
  energy :: int
  max_energy :: int

text \<open>
  Modelled from the spec: \<^verbatim>\<open>Creature.has_trait\<close> (creature.py is not among the sources).
  A trait name is present when it is the name of one of the creature's traits, by exact
  match.
\<close>

definition has_trait :: "Creature \<Rightarrow> string \<Rightarrow> bool" where
  "has_trait creature n = (n \<in> set (map trait_name (traits creature)))"

section \<open>evolution.py\<close>

subsection \<open>class EvolutionPath\<close>

record EvolutionPath =
  from_type :: string
  to_type :: string
  min_level :: int
  required_traits :: "string list"
  conditions :: "(string \<times> string) list"

fun required_traits_loop :: "Creature \<Rightarrow> string list \<Rightarrow> bool" where
  "required_traits_loop creature [] = True"
| "required_traits_loop creature (required_name # rest) =
     (if \<not> has_trait creature required_name then False else required_traits_loop creature rest)"

definition can_evolve :: "EvolutionPath \<Rightarrow> Creature \<Rightarrow> bool" where
  "can_evolve path creature =
     (if type_name (creature_type creature) \<noteq> from_type path then False
      else if level creature < min_level path then False
      else required_traits_loop creature (required_traits path))"

subsection \<open>class GeneticsSystem\<close>

record GeneticsSystem =
  mutation_rate :: pyfloat

definition average_stat :: "int \<Rightarrow> int \<Rightarrow> rng \<Rightarrow> pyerr + (int \<times> rng)" where
  "average_stat stat1 stat2 g =
     (let avg = (stat1 + stat2) div 2
      in bind_rng (random_randint ((- avg) div 10) (avg div 10) g)
           (\<lambda>variation g'. Inr (max 1 (avg + variation), g')))"

definition inherit_stats :: "Creature \<Rightarrow> Creature \<Rightarrow> rng \<Rightarrow> pyerr + (Stats \<times> rng)" where
  "inherit_stats parent1 parent2 g =
     (let p1_stats = base_stats parent1;
          p2_stats = base_stats parent2
      in bind_rng (average_stat (max_hp p1_stats) (max_hp p2_stats) g) (\<lambda>new_max_hp g1.
         bind_rng (average_stat (max_hp p1_stats) (max_hp p2_stats) g1) (\<lambda>new_hp g2.
         bind_rng (average_stat (attack p1_stats) (attack p2_stats) g2) (\<lambda>new_attack g3.
         bind_rng (average_stat (defense p1_stats) (defense p2_stats) g3) (\<lambda>new_defense g4.
         bind_rng (average_stat (speed p1_stats) (speed p2_stats) g4) (\<lambda>new_speed g5.
         bind_rng (average_stat (special_attack p1_stats) (special_attack p2_stats) g5)
           (\<lambda>new_special_attack g6.
         bind_rng (average_stat (special_defense p1_stats) (special_defense p2_stats) g6)
           (\<lambda>new_special_defense g7.
         Inr (Stats_init new_hp new_max_hp new_attack new_defense new_speed
                         new_special_attack new_special_defense, g7)))))))))"

definition mutate_trait :: "Trait \<Rightarrow> rng \<Rightarrow> Trait \<times> rng" where
  "mutate_trait trait g =
     (case random_uniform (9 / 10) (11 / 10) g of (mutation_factor, g') \<Rightarrow>
        (\<lparr>trait_name = trait_name trait @ '' (Mutated)'',
          trait_description = trait_description trait @ '' - Mutated variant'',
          trait_type = trait_type trait,
          strength_modifier = strength_modifier trait * mutation_factor,
          speed_modifier = speed_modifier trait * mutation_factor,
          defense_modifier = defense_modifier trait * mutation_factor,
          rarity = rarity trait\<rparr>, g'))"

fun inherit_loop :: "GeneticsSystem \<Rightarrow> Trait list \<Rightarrow> Trait list \<Rightarrow> rng \<Rightarrow> Trait list \<times> rng" where
  "inherit_loop gs inherited [] g = (inherited, g)"
| "inherit_loop gs inherited (trait # rest) g =
     (case random_random g of (u1, g1) \<Rightarrow>
        if u1 < 1 / 2 then
          (case random_random g1 of (u2, g2) \<Rightarrow>
             if u2 < mutation_rate gs then
               (case mutate_trait trait g2 of (mutated_trait, g3) \<Rightarrow>
                  inherit_loop gs (inherited @ [mutated_trait]) rest g3)
             else inherit_loop gs (inherited @ [trait]) rest g2)
        else inherit_loop gs inherited rest g1)"

fun unique_loop :: "string set \<Rightarrow> Trait list \<Rightarrow> Trait list \<Rightarrow> Trait list" where
  "unique_loop seen unique_traits [] = unique_traits"
| "unique_loop seen unique_traits (trait # rest) =
     (if trait_name trait \<notin> seen
      then unique_loop (insert (trait_name trait) seen) (unique_traits @ [trait]) rest
      else unique_loop seen unique_traits rest)"

definition inherit_traits :: "GeneticsSystem \<Rightarrow> Creature \<Rightarrow> Creature \<Rightarrow> rng \<Rightarrow> Trait list \<times> rng" where
  "inherit_traits gs parent1 parent2 g =
     (let all_parent_traits = traits parent1 @ traits parent2
      in case inherit_loop gs [] all_parent_traits g of (inherited, g') \<Rightarrow>
           (unique_loop {} [] inherited, g'))"

text \<open>
  \<^verbatim>\<open>breed\<close> ends in a call of the \<^verbatim>\<open>Creature\<close> constructor, which is not among the sources:
  the offspring is the record of the five arguments \<^verbatim>\<open>breed\<close> passes to it.
\<close>

record Offspring =
  offspring_name :: string
  offspring_type :: CreatureType
  offspring_level :: int
  offspring_base_stats :: Stats
  offspring_traits :: "Trait list"

definition breed :: "GeneticsSystem \<Rightarrow> Creature \<Rightarrow> Creature \<Rightarrow> string \<Rightarrow> rng \<Rightarrow> pyerr + (Offspring \<times> rng)" where
  "breed gs parent1 parent2 name g =
     bind_rng (random_choice [creature_type parent1, creature_type parent2] g) (\<lambda>otype g1.
     bind_rng (inherit_stats parent1 parent2 g1) (\<lambda>inherited_stats g2.
       case inherit_traits gs parent1 parent2 g2 of (inherited_traits, g3) \<Rightarrow>
         Inr (\<lparr>offspring_name = name, offspring_type = otype, offspring_level = 1,
               offspring_base_stats = inherited_stats,
               offspring_traits = inherited_traits\<rparr>, g3)))"

subsection \<open>class EvolutionSystem\<close>

record EvolutionSystem =
  evolution_paths :: "EvolutionPath list"
  creature_types :: "string \<rightharpoonup> CreatureType"

definition register_creature_type :: "EvolutionSystem \<Rightarrow> CreatureType \<Rightarrow> EvolutionSystem" where
  "register_creature_type sys ct = sys\<lparr>creature_types := (creature_types sys)(type_name ct \<mapsto> ct)\<rparr>"

definition add_evolution_path :: "EvolutionSystem \<Rightarrow> EvolutionPath \<Rightarrow> EvolutionSystem" where
  "add_evolution_path sys path = sys\<lparr>evolution_paths := evolution_paths sys @ [path]\<rparr>"

definition get_available_evolutions :: "EvolutionSystem \<Rightarrow> Creature \<Rightarrow> EvolutionPath list" where
  "get_available_evolutions sys creature =
     filter (\<lambda>path. can_evolve path creature) (evolution_paths sys)"

definition system_can_evolve :: "EvolutionSystem \<Rightarrow> Creature \<Rightarrow> bool" where
  "system_can_evolve sys creature = (length (get_available_evolutions sys creature) > 0)"

text \<open>Subscripting as Python does it: a list index out of range and a missing key raise.\<close>

definition list_getitem :: "'a list \<Rightarrow> nat \<Rightarrow> pyerr + 'a" where
  "list_getitem xs i = (if i < length xs then Inr (xs ! i) else Inl IndexError)"

definition dict_getitem :: "('k \<rightharpoonup> 'v) \<Rightarrow> 'k \<Rightarrow> pyerr + 'v" where
  "dict_getitem d k = (case d k of None \<Rightarrow> Inl KeyError | Some v \<Rightarrow> Inr v)"

text \<open>
  \<^verbatim>\<open>evolve\<close> mutates the creature it is given, so the model returns the creature as it is
  after the call together with the returned pair. \<^verbatim>\<open>Creature.get_effective_stats\<close> is not
  among the sources; it is the parameter \<open>get_effective_stats\<close>, a function of the
  creature's state at the moment of the call.

  The first block of \<^verbatim>\<open>evolve\<close> either returns early, or raises, or goes on with a path.
\<close>

definition evolve_select :: "EvolutionSystem \<Rightarrow> Creature \<Rightarrow> EvolutionPath option
    \<Rightarrow> pyerr + ((bool \<times> string) + EvolutionPath)" where
  "evolve_select sys creature evolution_path =
     (case evolution_path of
        None \<Rightarrow>
          (let available = get_available_evolutions sys creature
           in if available = [] then Inr (Inl (False, ''No evolution paths available''))
              else (case list_getitem available 0 of
                      Inl e \<Rightarrow> Inl e
                    | Inr path \<Rightarrow> Inr (Inr path)))
      | Some path \<Rightarrow> Inr (Inr path))"

definition evolve :: "(Creature \<Rightarrow> Stats) \<Rightarrow> EvolutionSystem \<Rightarrow> Creature \<Rightarrow> EvolutionPath option
    \<Rightarrow> pyerr + (Creature \<times> bool \<times> string)" where
  "evolve get_effective_stats sys creature evolution_path =
     (case evolve_select sys creature evolution_path of
        Inl e \<Rightarrow> Inl e
      | Inr (Inl early) \<Rightarrow> Inr (creature, early)
      | Inr (Inr path) \<Rightarrow>
          if \<not> can_evolve path creature
          then Inr (creature, False, ''Evolution conditions not met'')
          else
            (let target_type_name = to_type path
             in if creature_types sys target_type_name = None
                then Inr (creature, False,
                          ''Target type '' @ [CHR 0x27] @ target_type_name @ [CHR 0x27] @ '' not found'')
                else
                  (case dict_getitem (creature_types sys) target_type_name of
                     Inl e \<Rightarrow> Inl e
                   | Inr target_type \<Rightarrow>
                       (let old_name = type_name (creature_type creature);
                            c1 = creature\<lparr>creature_type := target_type\<rparr>;
                            c2 = c1\<lparr>base_stats :=
                                   calculate_stats_at_level (stat_growth target_type)
                                     (type_base_stats target_type) (level c1)\<rparr>;
                            c3 = c2\<lparr>stats := get_effective_stats c2\<rparr>;
                            c4 = c3\<lparr>stats := (stats c3)\<lparr>hp := max_hp (stats c3)\<rparr>\<rparr>;
                            c5 = c4\<lparr>energy := max_energy c4\<rparr>
                        in Inr (c5, True,
                                ''Evolved from '' @ old_name @ '' to '' @ type_name target_type @ ''!'')))))"

section \<open>Notions used in the statements\<close>

text \<open>
  The path \<^verbatim>\<open>evolve\<close> goes on with after its first block: the one supplied, or else the
  first available one, if there is one.
\<close>

definition selected_path :: "EvolutionSystem \<Rightarrow> Creature \<Rightarrow> EvolutionPath option \<Rightarrow> EvolutionPath option" where
  "selected_path sys creature evolution_path =
     (case evolution_path of
        Some path \<Rightarrow> Some path
      | None \<Rightarrow> (case get_available_evolutions sys creature of [] \<Rightarrow> None | path # _ \<Rightarrow> Some path))"

section \<open>Objects of the test suite\<close>

text \<open>
  The objects that tests/test_evolution.py builds, with the defaults of \<^verbatim>\<open>Stats()\<close>,
  \<^verbatim>\<open>StatModifier()\<close> and \<^verbatim>\<open>StatGrowth()\<close> for the arguments a test leaves out. The
  fields that only creature.py initialises are given plain values: empty descriptions, tags
  and traits, energy 100 of 100, and as base stats and stats of a creature those of its
  species at its level.
\<close>

definition default_growth :: StatGrowth where
  "default_growth =
     \<lparr>hp_growth = 10, attack_growth = 2, defense_growth = 2, speed_growth = 3 / 2,
      special_attack_growth = 2, special_defense_growth = 2, growth_curve = ''medium_fast''\<rparr>"

definition new_type :: "string \<Rightarrow> Stats \<Rightarrow> CreatureType" where
  "new_type n b =
     \<lparr>type_name = n, type_description = [], type_base_stats = b, stat_growth = default_growth,
      type_tags = [], evolution_stage = 0\<rparr>"

definition new_creature :: "string \<Rightarrow> CreatureType \<Rightarrow> int \<Rightarrow> Creature" where
  "new_creature n t l =
     \<lparr>creature_name = n, creature_type = t, level = l,
      base_stats = calculate_stats_at_level (stat_growth t) (type_base_stats t) l,
      stats = calculate_stats_at_level (stat_growth t) (type_base_stats t) l,
      traits = [], energy = 100, max_energy = 100\<rparr>"

definition type1 :: CreatureType where
  "type1 = new_type ''Type1'' (Stats_init 100 100 20 15 10 10 10)"

definition type2 :: CreatureType where
  "type2 = new_type ''Type2'' (Stats_init 120 120 15 20 10 10 10)"

definition newborn_type :: CreatureType where
  "newborn_type = new_type ''Newborn'' (Stats_init 80 80 10 10 10 10 10)"

definition warrior_type :: CreatureType where
  "warrior_type = new_type ''Warrior'' (Stats_init 120 120 18 10 10 10 10)"


definition new_path :: "string \<Rightarrow> string \<Rightarrow> int \<Rightarrow> EvolutionPath" where
  "new_path f t l = \<lparr>from_type = f, to_type = t, min_level = l, required_traits = [], conditions = []\<rparr>"

definition warrior_system :: EvolutionSystem where
  "warrior_system =
     add_evolution_path
       (register_creature_type
          (register_creature_type \<lparr>evolution_paths = [], creature_types = Map.empty\<rparr> newborn_type)
          warrior_type)
       (new_path ''Newborn'' ''Warrior'' 10)"


section \<open>Properties of stats.py\<close>

subsection \<open>Truncation\<close>



subsection \<open>take_damage\<close>

text \<open>
  C7. For every stat vector and every amount that is not negative, \<^verbatim>\<open>take_damage\<close> returns
  \<open>min amount hp\<close>, the returned damage plus the remaining hp is the original hp, and the hp
  afterwards is not negative. Only \<^verbatim>\<open>hp\<close> is assigned.
\<close>

theorem take_damage_clamped:
  assumes "0 \<le> amount"
  shows "snd (take_damage s amount) = min amount (hp s)
       \<and> snd (take_damage s amount) + hp (fst (take_damage s amount)) = hp s
       \<and> 0 \<le> hp (fst (take_damage s amount))
       \<and> fst (take_damage s amount) = s\<lparr>hp := hp s - min amount (hp s)\<rparr>"
  using assms by (auto simp: take_damage_def Let_def)

theorem take_damage_clamped_witness:
  "(0::int) \<le> 150
   \<and> snd (take_damage (Stats_init 100 100 10 10 10 10 10) 150) = 100
   \<and> hp (fst (take_damage (Stats_init 100 100 10 10 10 10 10) 150)) = 0"
  using take_damage_clamped [of 150 "Stats_init 100 100 10 10 10 10 10"]
  by (simp add: Stats_init_def)

subsection \<open>apply_modifier\<close>






subsection \<open>calculate_stats_at_level\<close>




lemmas growth_eval =
  calculate_stats_at_level_def get_growth_multiplier_def curves_def py_int_def Stats_init_def






section \<open>Properties of evolution.py\<close>

subsection \<open>The random module\<close>

lemmas random_eval =
  bind_rng_def random_randint_def random_random_def random_uniform_def random_choice_def
  next_raw_def

lemma random_randint_range:
  assumes "a \<le> b"
  shows "\<exists>n. random_randint a b g = Inr (n, snd (next_raw g)) \<and> a \<le> n \<and> n \<le> b"
proof -
  obtain r g' where rg: "next_raw g = (r, g')" by (cases "next_raw g")
  have pos: "0 < nat (b - a + 1)" using assms by simp
  have "int (r mod nat (b - a + 1)) < int (nat (b - a + 1))"
    using pos by (simp only: of_nat_less_iff mod_less_divisor)
  then have "int (r mod nat (b - a + 1)) \<le> b - a" using assms by simp
  then show ?thesis using assms rg by (simp add: random_randint_def)
qed

text \<open>Every number of the range is returned for some state of the generator.\<close>

lemma random_randint_onto:
  assumes "a \<le> n" and "n \<le> b"
  shows "random_randint a b (nat (n - a) # g) = Inr (n, g)"
  using assms by (simp add: random_randint_def next_raw_def)

subsection \<open>Stat inheritance\<close>

text \<open>
  What \<^verbatim>\<open>average_stat\<close> returns when the sum of the two stats is not negative: the
  average plus a variation between \<open>(- avg) div 10\<close> and \<open>avg div 10\<close>, raised to 1 when it is
  lower. The lower end is \<open>- (avg div 10)\<close> only when 10 divides the average.
\<close>

lemma average_stat_range:
  assumes "0 \<le> stat1 + stat2"
  shows "\<exists>v. average_stat stat1 stat2 g
               = Inr (max 1 ((stat1 + stat2) div 2 + v), snd (next_raw g))
           \<and> (- ((stat1 + stat2) div 2)) div 10 \<le> v \<and> v \<le> ((stat1 + stat2) div 2) div 10"
proof -
  let ?avg = "(stat1 + stat2) div 2"
  have "0 \<le> ?avg" using assms by simp
  then have "(- ?avg) div 10 \<le> ?avg div 10" by linarith
  from random_randint_range [OF this, of g] show ?thesis
    by (auto simp: average_stat_def bind_rng_def Let_def)
qed

lemma average_stat_100_120:
  "\<exists>n. average_stat 100 120 g = Inr (n, snd (next_raw g)) \<and> 99 \<le> n \<and> n \<le> 121"
  using average_stat_range [of 100 120 g] by auto

lemma bind_rng_Inr:
  "bind_rng m f = Inr y \<longleftrightarrow> (\<exists>x g. m = Inr (x, g) \<and> f x g = Inr y)"
  by (cases m) (auto simp: bind_rng_def)

lemma random_randint_Inr:
  assumes "random_randint a b g = Inr (n, g')"
  shows "a \<le> n \<and> n \<le> b"
proof -
  from assms have ab: "a \<le> b" by (auto simp: random_randint_def split: if_splits)
  from random_randint_range [OF ab, of g] assms show ?thesis by auto
qed

lemma average_stat_Inr:
  assumes "average_stat stat1 stat2 g = Inr (n, g')"
  shows "\<exists>v. n = max 1 ((stat1 + stat2) div 2 + v)
           \<and> (- ((stat1 + stat2) div 2)) div 10 \<le> v \<and> v \<le> ((stat1 + stat2) div 2) div 10"
  using assms
  by (auto simp: average_stat_def Let_def bind_rng_Inr dest: random_randint_Inr)

text \<open>
  What \<^verbatim>\<open>_inherit_stats\<close> guarantees about hp and max_hp: both come from the parents'
  max_hp, each with a variation of its own, and hp is lowered to max_hp when it exceeds it.
\<close>

lemma inherit_stats_hp:
  assumes "inherit_stats parent1 parent2 g = Inr (s, g')"
  shows "\<exists>v w. max_hp s
               = max 1 ((max_hp (base_stats parent1) + max_hp (base_stats parent2)) div 2 + v)
           \<and> hp s
               = min (max 1 ((max_hp (base_stats parent1) + max_hp (base_stats parent2)) div 2 + w))
                     (max_hp s)
           \<and> (- ((max_hp (base_stats parent1) + max_hp (base_stats parent2)) div 2)) div 10 \<le> v
           \<and> v \<le> ((max_hp (base_stats parent1) + max_hp (base_stats parent2)) div 2) div 10
           \<and> (- ((max_hp (base_stats parent1) + max_hp (base_stats parent2)) div 2)) div 10 \<le> w
           \<and> w \<le> ((max_hp (base_stats parent1) + max_hp (base_stats parent2)) div 2) div 10"
proof -
  let ?a = "max_hp (base_stats parent1)" and ?b = "max_hp (base_stats parent2)"
  from assms obtain mh g1 h g2 where
    m: "average_stat ?a ?b g = Inr (mh, g1)" and
    h: "average_stat ?a ?b g1 = Inr (h, g2)" and
    s: "max_hp s = mh" "hp s = (if h > mh then mh else h)"
    by (auto simp: inherit_stats_def Let_def bind_rng_Inr Stats_init_def)
  from average_stat_Inr [OF m] obtain v where
    v: "mh = max 1 ((?a + ?b) div 2 + v)"
       "(- ((?a + ?b) div 2)) div 10 \<le> v" "v \<le> ((?a + ?b) div 2) div 10"
    by blast
  from average_stat_Inr [OF h] obtain w where
    w: "h = max 1 ((?a + ?b) div 2 + w)"
       "(- ((?a + ?b) div 2)) div 10 \<le> w" "w \<le> ((?a + ?b) div 2) div 10"
    by blast
  have "hp s = min h (max_hp s)" using s by (simp add: min_def)
  with s v w show ?thesis by blast
qed

text \<open>
  C1. The offspring stat is \<open>max 1 (avg + v)\<close> with \<open>v\<close> between \<open>- (avg div 10)\<close> and
  \<open>avg div 10\<close>. The code does not keep the lower end: for two parents with attack 15 the
  average is 15 and the claimed range 14 to 16, and when the generator returns the low end
  of \<^verbatim>\<open>randint(-avg // 10, avg // 10)\<close>, which is -2, the offspring has attack 13.
\<close>

theorem average_stat_below_ten_percent:
  "average_stat 15 15 [0] = Inr (13, [])
   \<and> \<not> (15 - 15 div 10 \<le> (13::int))
   \<and> inherit_stats (new_creature ''P1'' type2 1) (new_creature ''P2'' type2 1) []
       = Inr (\<lparr>hp = 108, max_hp = 108, attack = 13, defense = 18, speed = 9,
               special_attack = 9, special_defense = 9\<rparr>, [])"
  by (simp add: average_stat_def inherit_stats_def random_eval type2_def new_type_def
        new_creature_def default_growth_def growth_eval Let_def)

text \<open>
  C2. The offspring of \<^verbatim>\<open>breed\<close> has hp equal to max_hp. The code draws the variation of
  hp and the variation of max_hp separately: for parents with max_hp 100 and 120, when the
  first draw is the high end (+11) and the second the low end (-11), the offspring has
  max_hp 121 and hp 99.
\<close>

theorem breed_offspring_damaged:
  "breed \<lparr>mutation_rate = 0\<rparr> (new_creature ''P1'' type1 1) (new_creature ''P2'' type2 1)
       ''Offspring'' [0, 22, 0]
     = Inr (\<lparr>offspring_name = ''Offspring'', offspring_type = type1, offspring_level = 1,
             offspring_base_stats =
               \<lparr>hp = 99, max_hp = 121, attack = 15, defense = 15, speed = 9,
                special_attack = 9, special_defense = 9\<rparr>,
             offspring_traits = []\<rparr>, [])"
  by (simp add: breed_def inherit_traits_def inherit_stats_def average_stat_def random_eval
        type1_def type2_def new_type_def new_creature_def default_growth_def growth_eval Let_def)

subsection \<open>Mutation\<close>

text \<open>
  C8. For every trait, \<^verbatim>\<open>_mutate_trait\<close> makes one call of \<^verbatim>\<open>random.uniform(0.9, 1.1)\<close>, which
  takes one number from the generator; the factor it returns lies between 0.9 and 1.1, and
  the strength, speed and defense modifiers of the mutated trait are those of the original
  trait times this one factor. The name is the original name followed by \<open>(Mutated)\<close>;
  trait_type and rarity are those of the original trait.
\<close>

theorem mutate_trait_shared_factor:
  "case mutate_trait t g of (t', g') \<Rightarrow>
     (case random_uniform (9 / 10) (11 / 10) g of (f, g'') \<Rightarrow>
        9 / 10 \<le> f \<and> f \<le> 11 / 10 \<and> g' = g'' \<and> g' = snd (next_raw g)
      \<and> strength_modifier t' = strength_modifier t * f
      \<and> speed_modifier t' = speed_modifier t * f
      \<and> defense_modifier t' = defense_modifier t * f
      \<and> trait_name t' = trait_name t @ '' (Mutated)''
      \<and> trait_type t' = trait_type t \<and> rarity t' = rarity t)"
proof -
  obtain r g1 where rg: "next_raw g = (r, g1)" by (cases "next_raw g")
  let ?u = "real (r mod 9007199254740992) / 9007199254740992"
  have "r mod 9007199254740992 < 9007199254740992" by simp
  then have "real (r mod 9007199254740992) < 9007199254740992" by linarith
  then have u: "0 \<le> ?u \<and> ?u < 1" by simp
  then have "9 / 10 \<le> 9 / 10 + (11 / 10 - 9 / 10) * ?u
           \<and> 9 / 10 + (11 / 10 - 9 / 10) * ?u \<le> 11 / 10"
    by simp
  then show ?thesis
    by (simp add: mutate_trait_def random_uniform_def random_random_def rg)
qed

subsection \<open>evolve\<close>

lemma evolve_select_eq:
  "evolve_select sys c eo =
     (case selected_path sys c eo of
        None \<Rightarrow> Inr (Inl (False, ''No evolution paths available''))
      | Some p \<Rightarrow> Inr (Inr p))"
  by (simp add: evolve_select_def selected_path_def list_getitem_def Let_def
           split: option.splits list.splits)

text \<open>A path that \<^verbatim>\<open>evolve\<close> selects itself is registered and satisfied by the creature.\<close>

lemma selected_path_available:
  assumes "selected_path sys c None = Some p"
  shows "can_evolve p c \<and> p \<in> set (evolution_paths sys)"
proof -
  from assms obtain rest
    where "filter (\<lambda>path. can_evolve path c) (evolution_paths sys) = p # rest"
    by (auto simp: selected_path_def get_available_evolutions_def split: list.splits)
  then have "p \<in> set (filter (\<lambda>path. can_evolve path c) (evolution_paths sys))" by simp
  then show ?thesis by simp
qed



text \<open>
  C10. For every creature and every path argument, supplied or not, when \<^verbatim>\<open>evolve\<close>
  returns success False the creature after the call is the creature before the call, in
  every field.
\<close>

theorem evolve_failure_unchanged:
  assumes "evolve ges sys c eo = Inr (c', False, msg)"
  shows "c' = c"
  using assms
  by (auto simp: evolve_def evolve_select_eq dict_getitem_def Let_def
           split: option.splits if_splits)

theorem evolve_failure_unchanged_witness:
  "evolve base_stats warrior_system (new_creature ''Young'' newborn_type 5)
       (Some (new_path ''Newborn'' ''Warrior'' 10))
     = Inr (new_creature ''Young'' newborn_type 5, False, ''Evolution conditions not met'')"
proof -
  have e: "evolve base_stats warrior_system (new_creature ''Young'' newborn_type 5)
       (Some (new_path ''Newborn'' ''Warrior'' 10))
     = Inr (new_creature ''Young'' newborn_type 5, False, ''Evolution conditions not met'')"
    by (simp add: evolve_def evolve_select_def can_evolve_def new_creature_def new_path_def
          newborn_type_def new_type_def)
  show ?thesis using evolve_failure_unchanged [OF e] e by simp
qed




end
